theory Spec2Isabelle
  imports Complex_Main "HOL-Library.Word"
begin

section \<open>Values shared by the connection manager and the daemon\<close>

text \<open>
  The JSON values that occur in the daemon's responses. A response is a Python dict
  literal; it is kept as an association list in the order the source writes its keys.
\<close>

datatype json = JNull | JBool bool | JInt int | JStr string

type_synonym response = "(string \<times> json) list"

text \<open>
  Exceptions, by the classes the source's handlers tell apart: \<open>TimeoutError\<close>
  (caught by name in \<open>connect\<close>, and as \<open>asyncio.TimeoutError\<close>, the same class
  since Python 3.11, in \<open>handle_client\<close>), bleak's \<open>BleakError\<close> (caught by name
  in the wire operations) and every other subclass of \<open>Exception\<close>. The string is
  \<open>str(e)\<close>. Cancellation and interrupts (\<open>BaseException\<close>) are not modelled.
\<close>

datatype exn = TimeoutError string | BleakError string | OtherError string

fun str :: "exn \<Rightarrow> string" where
  "str (TimeoutError m) = m"
| "str (BleakError m) = m"
| "str (OtherError m) = m"

text \<open>Python's \<open>needle in haystack\<close> on strings.\<close>

fun contains :: "string \<Rightarrow> string \<Rightarrow> bool" where
  "contains needle [] = (needle = [])"
| "contains needle (c # cs) =
     (take (length needle) (c # cs) = needle \<or> contains needle cs)"

definition POWER_CHAR_UUID :: string where
  "POWER_CHAR_UUID = ''932c32bd-0002-47a2-835a-a8d455b859dd''"

definition BRIGHTNESS_CHAR_UUID :: string where
  "BRIGHTNESS_CHAR_UUID = ''932c32bd-0003-47a2-835a-a8d455b859dd''"

section \<open>The brightness mapping of \<open>hue_ble.py\<close>\<close>

text \<open>
  \<open>int(x)\<close> on a Python float truncates towards zero. The source computes
  \<open>int((percent / 100) * 253) + 1\<close> and \<open>int(((brightness_raw - 1) / 253) * 100)\<close>
  in double precision; the model computes the same expressions over the rationals.
  On the inputs the code can reach (a percentage clamped to 1..100, a byte 0..255) the
  exact quotient is either an integer that the doubles represent exactly (at 100 and at
  the bytes 1 and 254) or at least 1/253 away from the nearest integer, so the
  truncation of the double and of the rational agree.
\<close>

definition py_int :: "rat \<Rightarrow> int" where
  "py_int q = (if q < 0 then \<lceil>q\<rceil> else \<lfloor>q\<rfloor>)"

text \<open>Lines 182-183 of \<open>set_brightness\<close>: the clamp, then the wire value.\<close>

definition brightness_value :: "int \<Rightarrow> int" where
  "brightness_value percent =
     (let percent = max 1 (min 100 percent)
      in py_int ((of_int percent / 100) * 253) + 1)"

text \<open>Line 202 of \<open>get_state\<close>: the percentage reported for a raw byte.\<close>

definition brightness_percent :: "int \<Rightarrow> int" where
  "brightness_percent brightness_raw =
     max 1 (min 100 (py_int (((of_int brightness_raw - 1) / 253) * 100)))"

text \<open>
  The mapping as the specification words it, with Python's \<open>round\<close> (to nearest, ties to
  the even integer), for comparison with the two definitions above.
\<close>

definition py_round :: "rat \<Rightarrow> int" where
  "py_round q =
     (let f = \<lfloor>q\<rfloor>; d = q - of_int f
      in if d < 1 / 2 then f
         else if 1 / 2 < d then f + 1
         else if even f then f else f + 1)"

definition spec_wire_value :: "int \<Rightarrow> int" where
  "spec_wire_value percent = py_round ((of_int percent / 100) * 253) + 1"

definition spec_percent_from_wire :: "int \<Rightarrow> int" where
  "spec_percent_from_wire raw =
     max 1 (min 100 (py_round (((of_int raw - 1) / 253) * 100)))"

section \<open>The environment of one operation\<close>

text \<open>
  What the code does on the link, the lock, the config file and the client socket is
  recorded as a list of events, in program order.
\<close>

datatype event =
    LockAcquire
  | LockRelease
  | ClientConnect string
  | ReadGattChar string
  | WriteGattChar string "8 word list"
  | ClientPair
  | ClientDisconnect
  | SaveConfig string
  | SockWrite response
  | SockDrain
  | WriterClose
  | WriterWaitClosed
  | ServerClose
  | ServerWaitClosed
  | PidUnlink

text \<open>
  The collaborators outside the repository (bleak's \<open>BleakClient\<close>, the config file,
  the client's socket) answer as the record below says: an exception, or a normal
  return. \<open>connect_outcome\<close> is \<open>await self._client.connect()\<close>: raising, or returning
  with \<open>self._client.is_connected\<close> as given. \<open>last_address\<close> is
  \<open>load_config().get("last_address")\<close>.
\<close>

record world =
  connect_outcome :: "exn + bool"
  read_outcome :: "string \<Rightarrow> exn + 8 word list"
  write_outcome :: "string \<Rightarrow> 8 word list \<Rightarrow> exn option"
  pair_outcome :: "exn option"
  disconnect_outcome :: "exn option"
  save_outcome :: "exn option"
  last_address :: "string option"
  drain_outcome :: "exn option"

section \<open>\<open>HueBulbConnection\<close> (\<open>hue_ble.py\<close>)\<close>

record bleak_client =
  client_address :: string
  client_is_connected :: bool

text \<open>
  The fields \<open>address\<close>, \<open>_client\<close>, \<open>_disconnect_event\<close> (set or clear) and
  \<open>_connected\<close>. The lock \<open>_lock\<close> is free whenever a single operation starts; its
  use shows in the events.
\<close>

record hue_bulb_connection =
  address :: string
  client :: "bleak_client option"
  disconnect_event :: bool
  connected_flag :: bool

type_synonym 'a outcome = "(exn + 'a) \<times> hue_bulb_connection \<times> event list"

definition new_connection :: "string \<Rightarrow> hue_bulb_connection" where
  "new_connection a =
     \<lparr>address = a, client = None, disconnect_event = False, connected_flag = False\<rparr>"

text \<open>\<open>self._client is not None and self._client.is_connected\<close>.\<close>

definition client_up :: "hue_bulb_connection \<Rightarrow> bool" where
  "client_up c = (case client c of None \<Rightarrow> False | Some cl \<Rightarrow> client_is_connected cl)"

definition is_connected :: "hue_bulb_connection \<Rightarrow> bool" where
  "is_connected c = (connected_flag c \<and> client_up c)"

text \<open>\<open>_save_working_address\<close>: rewrites the config file, which may raise.\<close>

definition save_working_address :: "world \<Rightarrow> hue_bulb_connection \<Rightarrow> event list \<Rightarrow> bool outcome" where
  "save_working_address w c tr =
     (case save_outcome w of
        None \<Rightarrow> (Inr True, c, tr @ [SaveConfig (address c)])
      | Some e \<Rightarrow> (Inl e, c, tr @ [SaveConfig (address c)]))"

text \<open>The body of the \<open>try\<close> block of \<open>connect\<close> (lines 103-126).\<close>

definition connect_try :: "world \<Rightarrow> hue_bulb_connection \<Rightarrow> bool outcome" where
  "connect_try w c =
     (let cl = \<lparr>client_address = address c, client_is_connected = False\<rparr>;
          c1 = c\<lparr>client := Some cl\<rparr>;
          tr1 = [ClientConnect (address c)]
      in case connect_outcome w of
           Inl e \<Rightarrow> (Inl e, c1, tr1)
         | Inr up \<Rightarrow>
             (let c2 = c1\<lparr>client := Some (cl\<lparr>client_is_connected := up\<rparr>)\<rparr>
              in if \<not> up then (Inr False, c2, tr1)
                 else
                   (let c3 = c2\<lparr>connected_flag := True, disconnect_event := False\<rparr>;
                        tr2 = tr1 @ [ReadGattChar POWER_CHAR_UUID]
                    in case read_outcome w POWER_CHAR_UUID of
                         Inr data \<Rightarrow> save_working_address w c3 tr2
                       | Inl (BleakError m) \<Rightarrow>
                           if contains ''Insufficient Encryption'' m \<or> contains ''0x0F'' m
                           then (case pair_outcome w of
                                   None \<Rightarrow> save_working_address w c3 (tr2 @ [ClientPair])
                                 | Some e \<Rightarrow> (Inl e, c3, tr2 @ [ClientPair]))
                           else save_working_address w c3 tr2
                       | Inl e \<Rightarrow> (Inl e, c3, tr2))))"

text \<open>
  \<open>connect\<close>: the early return, then the \<open>try\<close> block under its two handlers
  (\<open>except TimeoutError\<close> and \<open>except Exception\<close>), both of which return \<open>False\<close>.
\<close>

definition connect :: "world \<Rightarrow> hue_bulb_connection \<Rightarrow> bool outcome" where
  "connect w c =
     (if is_connected c then (Inr True, c, [])
      else case connect_try w c of
             (Inl e, c', tr) \<Rightarrow> (Inr False, c', tr)
           | (Inr b, c', tr) \<Rightarrow> (Inr b, c', tr))"

text \<open>\<open>_on_disconnect\<close>: the callback bleak runs when the link is lost.\<close>

definition on_disconnect :: "hue_bulb_connection \<Rightarrow> hue_bulb_connection" where
  "on_disconnect c = c\<lparr>connected_flag := False, disconnect_event := True\<rparr>"

definition disconnect :: "world \<Rightarrow> hue_bulb_connection \<Rightarrow> unit outcome" where
  "disconnect w c =
     (let c1 = c\<lparr>disconnect_event := True\<rparr>;
          cleared = c1\<lparr>client := None, connected_flag := False\<rparr>
      in if client_up c1
         then (case disconnect_outcome w of
                 Some e \<Rightarrow> (Inl e, c1, [ClientDisconnect])
               | None \<Rightarrow> (Inr (), cleared, [ClientDisconnect]))
         else (Inr (), cleared, []))"

text \<open>
  The block shared by \<open>turn_on\<close>, \<open>turn_off\<close> and \<open>set_brightness\<close>:
  \<open>async with self._lock\<close> around one \<open>write_gatt_char\<close>, with \<open>except BleakError\<close>
  returning \<open>False\<close>. Any other exception leaves the block, which releases the lock.
\<close>

definition write_locked :: "world \<Rightarrow> hue_bulb_connection \<Rightarrow> string \<Rightarrow> 8 word list \<Rightarrow> bool outcome" where
  "write_locked w c uuid payload =
     (let tr = [LockAcquire, WriteGattChar uuid payload, LockRelease]
      in case write_outcome w uuid payload of
           None \<Rightarrow> (Inr True, c, tr)
         | Some (BleakError m) \<Rightarrow> (Inr False, c, tr)
         | Some e \<Rightarrow> (Inl e, c, tr))"

definition turn_on :: "world \<Rightarrow> hue_bulb_connection \<Rightarrow> bool outcome" where
  "turn_on w c =
     (if \<not> is_connected c then (Inr False, c, [])
      else write_locked w c POWER_CHAR_UUID [1])"

definition turn_off :: "world \<Rightarrow> hue_bulb_connection \<Rightarrow> bool outcome" where
  "turn_off w c =
     (if \<not> is_connected c then (Inr False, c, [])
      else write_locked w c POWER_CHAR_UUID [0])"

text \<open>\<open>bytes([value])\<close> raises ValueError unless \<open>0 <= value < 256\<close>.\<close>

definition bytes1 :: "int \<Rightarrow> exn + 8 word list" where
  "bytes1 v =
     (if 0 \<le> v \<and> v < 256 then Inr [word_of_int v]
      else Inl (OtherError ''bytes must be in range(0, 256)''))"

definition set_brightness :: "world \<Rightarrow> hue_bulb_connection \<Rightarrow> int \<Rightarrow> bool outcome" where
  "set_brightness w c percent =
     (if \<not> is_connected c then (Inr False, c, [])
      else case bytes1 (brightness_value percent) of
             Inl e \<Rightarrow> (Inl e, c, [LockAcquire, LockRelease])
           | Inr payload \<Rightarrow> write_locked w c BRIGHTNESS_CHAR_UUID payload)"

definition get_state :: "world \<Rightarrow> hue_bulb_connection \<Rightarrow> response option outcome" where
  "get_state w c =
     (if \<not> is_connected c then (Inr None, c, [])
      else
        (let tr1 = [LockAcquire, ReadGattChar POWER_CHAR_UUID];
             tr2 = tr1 @ [ReadGattChar BRIGHTNESS_CHAR_UUID]
         in case read_outcome w POWER_CHAR_UUID of
              Inl (BleakError m) \<Rightarrow> (Inr None, c, tr1 @ [LockRelease])
            | Inl e \<Rightarrow> (Inl e, c, tr1 @ [LockRelease])
            | Inr power_data \<Rightarrow>
                (case read_outcome w BRIGHTNESS_CHAR_UUID of
                   Inl (BleakError m) \<Rightarrow> (Inr None, c, tr2 @ [LockRelease])
                 | Inl e \<Rightarrow> (Inl e, c, tr2 @ [LockRelease])
                 | Inr brightness_data \<Rightarrow>
                     (let power_on = (case power_data of [] \<Rightarrow> False | b # bs \<Rightarrow> b = 1);
                          brightness_raw = (case brightness_data of [] \<Rightarrow> 1 | b # bs \<Rightarrow> uint b)
                      in (Inr (Some [(''power'', JStr (if power_on then ''on'' else ''off'')),
                                     (''brightness'', JInt (brightness_percent brightness_raw))]),
                          c, tr2 @ [LockRelease])))))"

section \<open>\<open>HueDaemon\<close> (\<open>daemon.py\<close>)\<close>

text \<open>
  A decoded request: the keys \<open>cmd\<close>, \<open>address\<close> and \<open>level\<close> of the JSON object,
  each absent (\<open>None\<close>) or present with the type the protocol gives it.
\<close>

record request =
  req_cmd :: "string option"
  req_address :: "string option"
  req_level :: "int option"

text \<open>
  The daemon's fields \<open>connection\<close> and \<open>server\<close> (\<open>Some True\<close> while it listens,
  \<open>Some False\<close> once closed), and whether \<open>PID_FILE\<close> exists.
\<close>

record hue_daemon =
  connection :: "hue_bulb_connection option"
  server :: "bool option"
  pid_file :: bool

type_synonym reply = "(exn + response) \<times> hue_daemon \<times> event list"

definition unknown_command :: response where
  "unknown_command = [(''ok'', JBool False), (''error'', JStr ''Unknown command'')]"

definition not_connected :: response where
  "not_connected = [(''ok'', JBool False), (''error'', JStr ''Not connected'')]"

definition shutting_down :: response where
  "shutting_down = [(''ok'', JBool True), (''message'', JStr ''Shutting down'')]"

text \<open>\<open>self.connection and self.connection.is_connected\<close> as an \<open>if\<close> condition.\<close>

definition daemon_connected :: "hue_daemon \<Rightarrow> bool" where
  "daemon_connected d = (case connection d of None \<Rightarrow> False | Some c \<Rightarrow> is_connected c)"

text \<open>
  The same expression as a value (line 38): Python's \<open>and\<close> returns its first operand
  when that is falsy, so with \<open>self.connection\<close> being \<open>None\<close> the value is \<open>None\<close>,
  which \<open>json.dumps\<close> writes as \<open>null\<close>.
\<close>

definition ping_connected :: "hue_daemon \<Rightarrow> json" where
  "ping_connected d = (case connection d of None \<Rightarrow> JNull | Some c \<Rightarrow> JBool (is_connected c))"

text \<open>\<open>if not address\<close>: \<open>None\<close> and the empty string are falsy.\<close>

definition nonempty :: "string option \<Rightarrow> string option" where
  "nonempty a = (case a of None \<Rightarrow> None | Some s \<Rightarrow> if s = [] then None else Some s)"

text \<open>Lines 40-63, the \<open>connect\<close> command.\<close>

definition cmd_connect :: "world \<Rightarrow> hue_daemon \<Rightarrow> request \<Rightarrow> reply" where
  "cmd_connect w d r =
     (let addr = (case nonempty (req_address r) of None \<Rightarrow> last_address w | Some a \<Rightarrow> Some a)
      in case nonempty addr of
           None \<Rightarrow> (Inr [(''ok'', JBool False), (''error'', JStr ''No address specified'')], d, [])
         | Some a \<Rightarrow>
             (case (case connection d of
                      None \<Rightarrow> (Inr unknown_command, d, [])
                    | Some c \<Rightarrow>
                        if is_connected c
                        then (if address c = a
                              then (Inr [(''ok'', JBool True), (''message'', JStr ''Already connected'')], d, [])
                              else (case disconnect w c of
                                      (Inl e, c', tr) \<Rightarrow> (Inl e, d\<lparr>connection := Some c'\<rparr>, tr)
                                    | (Inr u, c', tr) \<Rightarrow> (Inr unknown_command, d\<lparr>connection := None\<rparr>, tr)))
                        else (Inr unknown_command, d, [])) of
                (Inl e, d1, tr1) \<Rightarrow> (Inl e, d1, tr1)
              | (Inr resp1, d1, tr1) \<Rightarrow>
                  if \<not> daemon_connected d1
                  then (case connect w (new_connection a) of
                          (Inl e, c', tr2) \<Rightarrow> (Inl e, d1\<lparr>connection := Some c'\<rparr>, tr1 @ tr2)
                        | (Inr success, c', tr2) \<Rightarrow>
                            (Inr (if success
                                  then [(''ok'', JBool True), (''message'', JStr (''Connected to '' @ a))]
                                  else [(''ok'', JBool False), (''error'', JStr ''Connection failed'')]),
                             d1\<lparr>connection := Some c'\<rparr>, tr1 @ tr2))
                  else (Inr resp1, d1, tr1)))"

text \<open>Lines 65-69, the \<open>disconnect\<close> command.\<close>

definition cmd_disconnect :: "world \<Rightarrow> hue_daemon \<Rightarrow> reply" where
  "cmd_disconnect w d =
     (case connection d of
        None \<Rightarrow> (Inr [(''ok'', JBool True)], d, [])
      | Some c \<Rightarrow>
          (case disconnect w c of
             (Inl e, c', tr) \<Rightarrow> (Inl e, d\<lparr>connection := Some c'\<rparr>, tr)
           | (Inr u, c', tr) \<Rightarrow> (Inr [(''ok'', JBool True)], d\<lparr>connection := None\<rparr>, tr)))"

text \<open>
  The branch that \<open>on\<close>, \<open>off\<close>, \<open>brightness\<close> and \<open>status\<close> share (lines 71-101):
  the operation runs when the daemon holds a connected link, and the answer is
  \<open>Not connected\<close> otherwise.
\<close>

definition on_connection ::
  "hue_daemon \<Rightarrow> (hue_bulb_connection \<Rightarrow> 'a outcome) \<Rightarrow> ('a \<Rightarrow> response) \<Rightarrow> reply" where
  "on_connection d operation answer =
     (case connection d of
        None \<Rightarrow> (Inr not_connected, d, [])
      | Some c \<Rightarrow>
          if is_connected c
          then (case operation c of
                  (Inl e, c', tr) \<Rightarrow> (Inl e, d\<lparr>connection := Some c'\<rparr>, tr)
                | (Inr x, c', tr) \<Rightarrow> (Inr (answer x), d\<lparr>connection := Some c'\<rparr>, tr))
          else (Inr not_connected, d, []))"

definition status_answer :: "response option \<Rightarrow> response" where
  "status_answer state =
     (case state of
        Some s \<Rightarrow> (''ok'', JBool True) # s
      | None \<Rightarrow> [(''ok'', JBool False), (''error'', JStr ''Failed to read state'')])"

text \<open>
  The \<open>if\<close>/\<open>elif\<close> chain of \<open>handle_client\<close> for every command but \<open>shutdown\<close>,
  which writes its own response.
\<close>

definition dispatch :: "world \<Rightarrow> hue_daemon \<Rightarrow> request \<Rightarrow> reply" where
  "dispatch w d r =
     (let cmd = req_cmd r
      in if cmd = Some ''ping''
           then (Inr [(''ok'', JBool True), (''connected'', ping_connected d)], d, [])
         else if cmd = Some ''connect'' then cmd_connect w d r
         else if cmd = Some ''disconnect'' then cmd_disconnect w d
         else if cmd = Some ''on''
           then on_connection d (turn_on w) (\<lambda>success. [(''ok'', JBool success)])
         else if cmd = Some ''off''
           then on_connection d (turn_off w) (\<lambda>success. [(''ok'', JBool success)])
         else if cmd = Some ''brightness''
           then (let level = (case req_level r of None \<Rightarrow> 50 | Some l \<Rightarrow> l)
                 in on_connection d (\<lambda>c. set_brightness w c level)
                      (\<lambda>success. [(''ok'', JBool success)]))
         else if cmd = Some ''status'' then on_connection d (get_state w) status_answer
         else (Inr unknown_command, d, []))"

text \<open>\<open>stop\<close> (lines 157-166).\<close>

definition stop :: "world \<Rightarrow> hue_daemon \<Rightarrow> (exn + unit) \<times> hue_daemon \<times> event list" where
  "stop w d =
     (case (case connection d of
              None \<Rightarrow> (Inr (), d, [])
            | Some c \<Rightarrow>
                (case disconnect w c of
                   (res, c', tr) \<Rightarrow> (res, d\<lparr>connection := Some c'\<rparr>, tr))) of
        (Inl e, d1, tr1) \<Rightarrow> (Inl e, d1, tr1)
      | (Inr u, d1, tr1) \<Rightarrow>
          (let (d2, tr2) = (case server d1 of
                              None \<Rightarrow> (d1, [])
                            | Some s \<Rightarrow> (d1\<lparr>server := Some False\<rparr>, [ServerClose, ServerWaitClosed]));
               (d3, tr3) = (if pid_file d2 then (d2\<lparr>pid_file := False\<rparr>, [PidUnlink]) else (d2, []))
           in (Inr (), d3, tr1 @ tr2 @ tr3)))"

text \<open>\<open>writer.write(...)\<close> followed by \<open>await writer.drain()\<close>, which may raise.\<close>

definition send :: "world \<Rightarrow> response \<Rightarrow> (exn + unit) \<times> event list" where
  "send w resp =
     (case drain_outcome w of
        None \<Rightarrow> (Inr (), [SockWrite resp, SockDrain])
      | Some e \<Rightarrow> (Inl e, [SockWrite resp]))"

text \<open>
  The handlers of \<open>handle_client\<close> (lines 114-121): a timeout is dropped; any other
  exception is answered with its text, and a failure of that write is dropped too.
\<close>

definition rescue :: "world \<Rightarrow> exn \<Rightarrow> event list" where
  "rescue w e =
     (case e of
        TimeoutError m \<Rightarrow> []
      | _ \<Rightarrow> snd (send w [(''ok'', JBool False), (''error'', JStr (str e))]))"

text \<open>The \<open>finally\<close> block (lines 122-127).\<close>

definition finally_block :: "event list" where
  "finally_block = [WriterClose, WriterWaitClosed]"

text \<open>
  What \<open>reader.readline()\<close> under its 5 second bound and \<open>json.loads\<close> deliver: a
  timeout, an empty read, text that does not decode (with the error's message), or a
  request.
\<close>

datatype received = ReadTimeout | ReadEOF | ReadBad string | ReadRequest request

definition handle_client :: "world \<Rightarrow> hue_daemon \<Rightarrow> received \<Rightarrow> hue_daemon \<times> event list" where
  "handle_client w d rcv =
     (case rcv of
        ReadTimeout \<Rightarrow> (d, finally_block)
      | ReadEOF \<Rightarrow> (d, finally_block)
      | ReadBad m \<Rightarrow> (d, rescue w (OtherError m) @ finally_block)
      | ReadRequest r \<Rightarrow>
          if req_cmd r = Some ''shutdown''
          then (case send w shutting_down of
                  (Inl e, tr) \<Rightarrow> (d, tr @ rescue w e @ finally_block)
                | (Inr u, tr) \<Rightarrow>
                    (case stop w d of
                       (Inl e, d', tr') \<Rightarrow> (d', tr @ [WriterClose] @ tr' @ rescue w e @ finally_block)
                     | (Inr u', d', tr') \<Rightarrow> (d', tr @ [WriterClose] @ tr' @ finally_block)))
          else (case dispatch w d r of
                  (Inl e, d', tr) \<Rightarrow> (d', tr @ rescue w e @ finally_block)
                | (Inr resp, d', tr) \<Rightarrow>
                    (case send w resp of
                       (Inl e, tr') \<Rightarrow> (d', tr @ tr' @ rescue w e @ finally_block)
                     | (Inr u, tr') \<Rightarrow> (d', tr @ tr' @ finally_block))))"

section \<open>Properties of event lists\<close>

text \<open>The calls that reach the peripheral through bleak.\<close>

fun wire_event :: "event \<Rightarrow> bool" where
  "wire_event (ClientConnect a) = True"
| "wire_event (ReadGattChar u) = True"
| "wire_event (WriteGattChar u bs) = True"
| "wire_event ClientPair = True"
| "wire_event ClientDisconnect = True"
| "wire_event e = False"

text \<open>
  \<open>guarded held es\<close>: running through \<open>es\<close> with the lock held or not at the start,
  the lock is only acquired when free and only released when held, every wire call
  happens while it is held, and it is free again at the end.
\<close>

fun guarded :: "bool \<Rightarrow> event list \<Rightarrow> bool" where
  "guarded held [] = (\<not> held)"
| "guarded held (LockAcquire # es) = (\<not> held \<and> guarded True es)"
| "guarded held (LockRelease # es) = (held \<and> guarded False es)"
| "guarded held (e # es) = (if wire_event e then held \<and> guarded held es else guarded held es)"





text \<open>
  One hold of the lock. \<open>holding es\<close>: \<open>es\<close> is what is left of an operation that has
  the lock, namely calls that are no lock events and then one release, with nothing
  after it. \<open>single_hold es\<close>: the operation does nothing at all, or it acquires the
  lock first, releases it last and neither acquires nor releases it in between; so
  every one of its wire calls lies inside that one hold.
\<close>

fun lock_event :: "event \<Rightarrow> bool" where
  "lock_event LockAcquire = True"
| "lock_event LockRelease = True"
| "lock_event e = False"

fun holding :: "event list \<Rightarrow> bool" where
  "holding [] = False"
| "holding [e] = (e = LockRelease)"
| "holding (e # es) = (\<not> lock_event e \<and> holding es)"





text \<open>The steps of the daemon's teardown: dropping the link, closing the listener,
  removing the PID file.\<close>

fun teardown_event :: "event \<Rightarrow> bool" where
  "teardown_event ClientDisconnect = True"
| "teardown_event ServerClose = True"
| "teardown_event ServerWaitClosed = True"
| "teardown_event PidUnlink = True"
| "teardown_event e = False"

text \<open>
  \<open>answered_first resp ph es\<close>: no teardown step of \<open>es\<close> comes before \<open>resp\<close> has been
  written to the socket and the write has been drained. The phase is \<open>Silent\<close> until
  \<open>resp\<close> is written, \<open>Written\<close> until the drain returns, \<open>Flushed\<close> from then on.
\<close>

datatype phase = Silent | Written | Flushed

fun answered_first :: "response \<Rightarrow> phase \<Rightarrow> event list \<Rightarrow> bool" where
  "answered_first resp ph [] = True"
| "answered_first resp ph (SockWrite x # es) =
     answered_first resp (if ph = Flushed then Flushed else if x = resp then Written else Silent) es"
| "answered_first resp ph (SockDrain # es) =
     answered_first resp (if ph = Silent then Silent else Flushed) es"
| "answered_first resp ph (e # es) =
     (if teardown_event e then ph = Flushed \<and> answered_first resp ph es
      else answered_first resp ph es)"

section \<open>Concrete inputs\<close>

text \<open>A world in which every collaborator returns normally; the bulb is on.\<close>

definition calm_world :: world where
  "calm_world =
     \<lparr>connect_outcome = Inr True,
      read_outcome = (\<lambda>uuid. Inr [1]),
      write_outcome = (\<lambda>uuid payload. None),
      pair_outcome = None,
      disconnect_outcome = None,
      save_outcome = None,
      last_address = Some ''AA:BB'',
      drain_outcome = None\<rparr>"

text \<open>A world in which every call on the link raises a \<open>BleakError\<close>.\<close>

definition stormy_world :: world where
  "stormy_world =
     \<lparr>connect_outcome = Inr True,
      read_outcome = (\<lambda>uuid. Inl (BleakError ''Characteristic not found'')),
      write_outcome = (\<lambda>uuid payload. Some (BleakError ''Not connected'')),
      pair_outcome = None,
      disconnect_outcome = Some (BleakError ''Not connected''),
      save_outcome = None,
      last_address = Some ''AA:BB'',
      drain_outcome = None\<rparr>"

text \<open>A connection to \<open>AA:BB\<close> that is up, and one that was never connected.\<close>

definition linked :: hue_bulb_connection where
  "linked =
     \<lparr>address = ''AA:BB'',
      client = Some \<lparr>client_address = ''AA:BB'', client_is_connected = True\<rparr>,
      disconnect_event = False,
      connected_flag = True\<rparr>"


definition fresh_daemon :: hue_daemon where
  "fresh_daemon = \<lparr>connection = None, server = Some True, pid_file = True\<rparr>"

definition linked_daemon :: hue_daemon where
  "linked_daemon = \<lparr>connection = Some linked, server = Some True, pid_file = True\<rparr>"

definition command :: "string \<Rightarrow> request" where
  "command name = \<lparr>req_cmd = Some name, req_address = None, req_level = None\<rparr>"




text \<open>A world in which the first read asks for pairing, which then succeeds.\<close>

definition pairing_world :: world where
  "pairing_world =
     calm_world\<lparr>read_outcome := (\<lambda>uuid. Inl (BleakError ''Insufficient Encryption (0x0F)''))\<rparr>"

text \<open>The world in which establishing the link times out.\<close>

definition timeout_world :: world where
  "timeout_world = calm_world\<lparr>connect_outcome := Inl (TimeoutError ''timed out'')\<rparr>"

section \<open>Facts shared by the proofs\<close>

lemma py_int_nonneg:
  assumes "0 \<le> k" and "0 < l"
  shows "py_int (of_int k / of_int l) = k div l"
proof -
  from assms have "\<not> (rat_of_int k / rat_of_int l < 0)"
    by (simp add: not_less)
  then show ?thesis
    by (simp add: py_int_def floor_divide_of_int_eq)
qed

lemma brightness_value_div:
  "1 \<le> p \<Longrightarrow> p \<le> 100 \<Longrightarrow> brightness_value p = p * 253 div 100 + 1"
  using py_int_nonneg [of "p * 253" 100] by (simp add: brightness_value_def)

lemma brightness_percent_div:
  "1 \<le> r \<Longrightarrow> brightness_percent r = max 1 (min 100 ((r - 1) * 100 div 253))"
  using py_int_nonneg [of "(r - 1) * 100" 253] by (simp add: brightness_percent_def)

lemma brightness_percent_zero: "brightness_percent 0 = 1"
  by code_simp

lemma brightness_value_low: "level < 1 \<Longrightarrow> brightness_value level = 3"
  using brightness_value_div [of 1] by (simp add: brightness_value_def)

lemma brightness_value_high: "100 < level \<Longrightarrow> brightness_value level = 254"
  using brightness_value_div [of 100] by (simp add: brightness_value_def)

lemma brightness_value_clamp: "brightness_value (max 1 (min 100 level)) = brightness_value level"
  by (simp add: brightness_value_def)

text \<open>The wire value always fits a byte, so \<open>bytes([value])\<close> never raises.\<close>

lemma brightness_value_range: "3 \<le> brightness_value p \<and> brightness_value p \<le> 254"
proof -
  define q where "q = max 1 (min 100 p)"
  have q: "1 \<le> q" "q \<le> 100"
    by (simp_all add: q_def)
  have "brightness_value p = brightness_value q"
    by (simp add: q_def brightness_value_clamp)
  also have "\<dots> = q * 253 div 100 + 1"
    using q by (rule brightness_value_div)
  finally have v: "brightness_value p = q * 253 div 100 + 1" .
  have "200 div 100 \<le> q * 253 div 100"
    by (rule zdiv_mono1) (use q in simp_all)
  moreover have "q * 253 div 100 \<le> 25300 div 100"
    by (rule zdiv_mono1) (use q in simp_all)
  ultimately have "2 \<le> q * 253 div 100 \<and> q * 253 div 100 \<le> 253"
    by simp
  with v show ?thesis by simp
qed

lemma linked_up: "is_connected linked" "client_up linked" "daemon_connected linked_daemon"
  by (simp_all add: is_connected_def client_up_def linked_def daemon_connected_def
      linked_daemon_def)

lemma fresh_down: "\<not> daemon_connected fresh_daemon" "\<not> client_up (new_connection a)"
  by (simp_all add: daemon_connected_def fresh_daemon_def client_up_def new_connection_def)

text \<open>Once bleak has reported the loss of the link, the connection counts as down.\<close>

lemma on_disconnect_down: "\<not> is_connected (on_disconnect c)"
  by (simp add: on_disconnect_def is_connected_def)

lemma write_locked_result:
  "fst (write_locked w c u p) =
     (case write_outcome w u p of
        None \<Rightarrow> Inr True
      | Some (BleakError m) \<Rightarrow> Inr False
      | Some e \<Rightarrow> Inl e)"
  by (simp add: write_locked_def Let_def split: option.splits exn.splits)

lemma write_locked_rest:
  "snd (write_locked w c u p) = (c, [LockAcquire, WriteGattChar u p, LockRelease])"
  by (simp add: write_locked_def Let_def split: option.splits exn.splits)

lemma set_brightness_up:
  assumes "is_connected c"
  shows "set_brightness w c p =
           write_locked w c BRIGHTNESS_CHAR_UUID [word_of_int (brightness_value p)]"
  using assms brightness_value_range [of p] by (simp add: set_brightness_def bytes1_def)

lemma on_connection_up:
  "connection d = Some c \<Longrightarrow> is_connected c \<Longrightarrow>
     on_connection d operation answer =
       (map_sum id answer (fst (operation c)),
        d\<lparr>connection := Some (fst (snd (operation c)))\<rparr>,
        snd (snd (operation c)))"
  by (simp add: on_connection_def split: prod.splits sum.splits)

lemma on_connection_down:
  "\<not> daemon_connected d \<Longrightarrow> on_connection d operation answer = (Inr not_connected, d, [])"
  by (simp add: on_connection_def daemon_connected_def split: option.splits)

lemma guarded_write_locked: "guarded False (snd (snd (write_locked w c u p)))"
  by (simp add: write_locked_rest)

lemma guarded_turn_on: "guarded False (snd (snd (turn_on w c)))"
  by (simp add: turn_on_def guarded_write_locked)

lemma guarded_turn_off: "guarded False (snd (snd (turn_off w c)))"
  by (simp add: turn_off_def guarded_write_locked)

lemma guarded_set_brightness: "guarded False (snd (snd (set_brightness w c percent)))"
  by (simp add: set_brightness_def guarded_write_locked split: sum.splits)

lemma guarded_get_state: "guarded False (snd (snd (get_state w c)))"
  by (simp add: get_state_def Let_def split: sum.splits exn.splits)





lemma holding_Acquire: "\<not> holding (LockAcquire # es)"
  by (cases es) simp_all















lemma answered_first_flushed: "answered_first resp Flushed es"
proof (induction es)
  case Nil
  show ?case by simp
next
  case (Cons e es)
  then show ?case by (cases e) simp_all
qed



lemma disconnect_calm:
  "disconnect calm_world linked =
     (Inr (), linked\<lparr>disconnect_event := True, client := None, connected_flag := False\<rparr>,
      [ClientDisconnect])"
  by (simp add: disconnect_def client_up_def linked_def calm_world_def)


section \<open>The lock (C1)\<close>




section \<open>Commands on a link that is down (C2)\<close>

text \<open>
  C2, as the code has it. For a request \<open>on\<close>, \<open>off\<close>, \<open>brightness\<close> or \<open>status\<close>
  received while the link is not connected, the daemon makes no connect attempt: it
  touches neither the link nor its own state and answers
  \<open>{ok: false, error: "Not connected"}\<close>, whatever identity the request or the config
  file names.
\<close>

theorem no_implicit_connect:
  assumes "\<not> daemon_connected d"
    and "req_cmd r = Some ''on'' \<or> req_cmd r = Some ''off''
         \<or> req_cmd r = Some ''brightness'' \<or> req_cmd r = Some ''status''"
  shows "dispatch w d r = (Inr not_connected, d, [])
     \<and> handle_client w d (ReadRequest r) =
         (d, case drain_outcome w of
               None \<Rightarrow> [SockWrite not_connected, SockDrain] @ finally_block
             | Some e \<Rightarrow> [SockWrite not_connected] @ rescue w e @ finally_block)"
proof -
  from assms(2) have d: "dispatch w d r = (Inr not_connected, d, [])"
    by (auto simp add: dispatch_def on_connection_down [OF assms(1)])
  from assms(2) have "req_cmd r \<noteq> Some ''shutdown''"
    by auto
  with d have "handle_client w d (ReadRequest r) =
      (d, case drain_outcome w of
            None \<Rightarrow> [SockWrite not_connected, SockDrain] @ finally_block
          | Some e \<Rightarrow> [SockWrite not_connected] @ rescue w e @ finally_block)"
    by (simp add: handle_client_def send_def split: option.splits)
  with d show ?thesis by simp
qed

theorem no_implicit_connect_witness:
  "\<not> daemon_connected fresh_daemon
   \<and> req_cmd (command ''status'') = Some ''status''
   \<and> dispatch calm_world fresh_daemon (command ''status'') = (Inr not_connected, fresh_daemon, [])
   \<and> handle_client calm_world fresh_daemon (ReadRequest (command ''status'')) =
       (fresh_daemon, [SockWrite not_connected, SockDrain, WriterClose, WriterWaitClosed])"
proof -
  have down: "\<not> daemon_connected fresh_daemon"
    by (rule fresh_down)
  have cmd: "req_cmd (command ''status'') = Some ''status''"
    by (simp add: command_def)
  from no_implicit_connect [OF down, of "command ''status''" calm_world] cmd
  show ?thesis
    using down by (simp add: send_def calm_world_def finally_block_def)
qed

text \<open>
  Against C2 as stated: the link is down, the request names the identity \<open>AA:BB\<close> and
  the config file knows it too, yet \<open>on\<close> is answered \<open>Not connected\<close> with no
  connect attempt among the events.
\<close>

theorem on_while_down_not_connected:
  "last_address calm_world = Some ''AA:BB''
   \<and> dispatch calm_world fresh_daemon
        \<lparr>req_cmd = Some ''on'', req_address = Some ''AA:BB'', req_level = None\<rparr>
       = (Inr [(''ok'', JBool False), (''error'', JStr ''Not connected'')], fresh_daemon, [])"
  by (simp add: dispatch_def on_connection_down fresh_down not_connected_def calm_world_def)

section \<open>Brightness out of range (C3)\<close>

text \<open>
  C3, as the code has it. A \<open>brightness\<close> request whose level lies outside 1..100,
  received on a connected link, is not rejected: the level is clamped to 1..100 and
  forwarded. The request behaves as the one with the clamped level, one write of the
  byte 3 (level below 1) or 254 (level above 100) reaches the transport under the lock,
  and the response is \<open>{ok: true}\<close> when that write succeeds, \<open>{ok: false}\<close> when
  it raises a \<open>BleakError\<close>.
\<close>

theorem brightness_out_of_range_clamped:
  assumes "daemon_connected d" and "req_cmd r = Some ''brightness''"
    and "req_level r = Some level" and "level < 1 \<or> 100 < level"
  shows "dispatch w d r = dispatch w d (r\<lparr>req_level := Some (max 1 (min 100 level))\<rparr>)
     \<and> snd (snd (dispatch w d r)) =
         [LockAcquire,
          WriteGattChar BRIGHTNESS_CHAR_UUID [if level < 1 then 3 else 254],
          LockRelease]
     \<and> fst (dispatch w d r) =
         (case write_outcome w BRIGHTNESS_CHAR_UUID [if level < 1 then 3 else 254] of
            None \<Rightarrow> Inr [(''ok'', JBool True)]
          | Some (BleakError m) \<Rightarrow> Inr [(''ok'', JBool False)]
          | Some e \<Rightarrow> Inl e)"
proof -
  obtain c where c: "connection d = Some c" "is_connected c"
    using assms(1) by (auto simp add: daemon_connected_def split: option.splits)
  have v: "brightness_value level = (if level < 1 then 3 else 254)"
    using assms(4) by (auto simp add: brightness_value_low brightness_value_high)
  have sb: "set_brightness w c level =
      write_locked w c BRIGHTNESS_CHAR_UUID [if level < 1 then 3 else 254]"
    using c(2) by (simp add: set_brightness_up v)
  have same: "set_brightness w c (max 1 (min 100 level)) = set_brightness w c level"
    by (simp add: set_brightness_def brightness_value_clamp)
  have d1: "dispatch w d r =
      on_connection d (\<lambda>c. set_brightness w c level) (\<lambda>success. [(''ok'', JBool success)])"
    using assms(2,3) by (simp add: dispatch_def)
  have d2: "dispatch w d (r\<lparr>req_level := Some (max 1 (min 100 level))\<rparr>) =
      on_connection d (\<lambda>c. set_brightness w c (max 1 (min 100 level)))
        (\<lambda>success. [(''ok'', JBool success)])"
    using assms(2) by (simp add: dispatch_def)
  have "dispatch w d r = dispatch w d (r\<lparr>req_level := Some (max 1 (min 100 level))\<rparr>)"
    unfolding d1 d2 using c by (simp add: on_connection_up same)
  moreover have "snd (snd (dispatch w d r)) =
      [LockAcquire, WriteGattChar BRIGHTNESS_CHAR_UUID [if level < 1 then 3 else 254],
       LockRelease]"
    unfolding d1 using c by (simp add: on_connection_up sb write_locked_rest)
  moreover have "fst (dispatch w d r) =
      (case write_outcome w BRIGHTNESS_CHAR_UUID [if level < 1 then 3 else 254] of
         None \<Rightarrow> Inr [(''ok'', JBool True)]
       | Some (BleakError m) \<Rightarrow> Inr [(''ok'', JBool False)]
       | Some e \<Rightarrow> Inl e)"
    unfolding d1 using c
    by (simp add: on_connection_up sb write_locked_result split: option.splits exn.splits)
  ultimately show ?thesis by blast
qed

theorem brightness_out_of_range_clamped_witness:
  "daemon_connected linked_daemon
   \<and> dispatch calm_world linked_daemon
        \<lparr>req_cmd = Some ''brightness'', req_address = None, req_level = Some (- 5)\<rparr>
       = dispatch calm_world linked_daemon
           \<lparr>req_cmd = Some ''brightness'', req_address = None, req_level = Some 1\<rparr>
   \<and> snd (snd (dispatch calm_world linked_daemon
        \<lparr>req_cmd = Some ''brightness'', req_address = None, req_level = Some (- 5)\<rparr>))
       = [LockAcquire, WriteGattChar BRIGHTNESS_CHAR_UUID [3], LockRelease]
   \<and> fst (dispatch calm_world linked_daemon
        \<lparr>req_cmd = Some ''brightness'', req_address = None, req_level = Some (- 5)\<rparr>)
       = Inr [(''ok'', JBool True)]"
proof -
  let ?r = "\<lparr>req_cmd = Some ''brightness'', req_address = None, req_level = Some (- 5)\<rparr>"
  have up: "daemon_connected linked_daemon"
    by (rule linked_up)
  have cmd: "req_cmd ?r = Some ''brightness''" and lvl: "req_level ?r = Some (- 5)"
    by simp_all
  have out: "(- 5 :: int) < 1 \<or> 100 < (- 5 :: int)"
    by simp
  note t = brightness_out_of_range_clamped [OF up cmd lvl out, of calm_world]
  from t [THEN conjunct1]
  have a: "dispatch calm_world linked_daemon ?r = dispatch calm_world linked_daemon
      \<lparr>req_cmd = Some ''brightness'', req_address = None, req_level = Some 1\<rparr>"
    by simp
  from t [THEN conjunct2, THEN conjunct1]
  have b: "snd (snd (dispatch calm_world linked_daemon ?r)) =
      [LockAcquire, WriteGattChar BRIGHTNESS_CHAR_UUID [3], LockRelease]"
    by simp
  from t [THEN conjunct2, THEN conjunct2]
  have c: "fst (dispatch calm_world linked_daemon ?r) = Inr [(''ok'', JBool True)]"
    by (simp add: calm_world_def)
  from up a b c show ?thesis
    by (intro conjI)
qed

text \<open>
  Against C3 as stated: on a connected link, \<open>brightness\<close> with level 150 is answered
  \<open>{ok: true}\<close>, and the byte 254 is written to the brightness characteristic.
\<close>

theorem brightness_150_is_written:
  "dispatch calm_world linked_daemon
     \<lparr>req_cmd = Some ''brightness'', req_address = None, req_level = Some 150\<rparr>
   = (Inr [(''ok'', JBool True)], linked_daemon,
      [LockAcquire, WriteGattChar BRIGHTNESS_CHAR_UUID [254], LockRelease])"
  by (simp add: dispatch_def on_connection_def linked_daemon_def linked_up set_brightness_up
      brightness_value_high write_locked_def calm_world_def)

section \<open>The brightness mapping (C4, C5)\<close>

text \<open>
  C4. For every percentage from 1 to 100, mapping it to the wire value as
  \<open>set_brightness\<close> does and back as \<open>get_state\<close> does gives a percentage within 1 of
  the original, and gives the original exactly at 1 and at 100.
\<close>

theorem brightness_round_trip:
  "1 \<le> percent \<Longrightarrow> percent \<le> 100 \<Longrightarrow>
     \<bar>brightness_percent (brightness_value percent) - percent\<bar> \<le> 1
     \<and> brightness_percent (brightness_value 1) = 1
     \<and> brightness_percent (brightness_value 100) = 100"
  by (simp add: brightness_value_div brightness_percent_div)

theorem brightness_round_trip_witness:
  "(1::int) \<le> 37 \<and> (37::int) \<le> 100
     \<and> \<bar>brightness_percent (brightness_value 37) - 37\<bar> \<le> 1
     \<and> brightness_percent (brightness_value 1) = 1
     \<and> brightness_percent (brightness_value 100) = 100"
  using brightness_round_trip [of 37] by simp

text \<open>
  C5, as the code has it. Both directions truncate: for every percentage from 1 to 100
  the wire value written is \<open>floor(percent * 253 / 100) + 1\<close>, and for every raw byte
  the percentage reported is \<open>floor((raw - 1) * 100 / 253)\<close> clamped to 1..100.
\<close>

theorem brightness_truncates:
  fixes raw :: "8 word"
  shows "1 \<le> percent \<Longrightarrow> percent \<le> 100 \<Longrightarrow>
     brightness_value percent = percent * 253 div 100 + 1
     \<and> brightness_percent (uint raw) = max 1 (min 100 ((uint raw - 1) * 100 div 253))"
proof -
  assume p: "1 \<le> percent" "percent \<le> 100"
  have "brightness_percent (uint raw) = max 1 (min 100 ((uint raw - 1) * 100 div 253))"
  proof (cases "uint raw = 0")
    case True
    then show ?thesis by (simp add: brightness_percent_zero)
  next
    case False
    then have "1 \<le> uint raw"
      using uint_ge_0 [of raw] by linarith
    then show ?thesis by (rule brightness_percent_div)
  qed
  with p show ?thesis by (simp add: brightness_value_div)
qed

theorem brightness_truncates_witness:
  "(1::int) \<le> 1 \<and> (1::int) \<le> 100 \<and> brightness_value 1 = 3
     \<and> brightness_percent (uint (200 :: 8 word)) = 78"
  using brightness_truncates [of 1 200] by simp

text \<open>
  Against C5 as stated: at 1 percent the code writes 3 where rounding to nearest gives
  4, and for the raw byte 200 it reports 78 where rounding to nearest gives 79.
\<close>

theorem brightness_is_not_rounded:
  "brightness_value 1 = 3 \<and> spec_wire_value 1 = 4
   \<and> brightness_percent 200 = 78 \<and> spec_percent_from_wire 200 = 79"
  by code_simp

section \<open>Ping (C6)\<close>

text \<open>
  C6 at a daemon that holds no connection object: the code answers \<open>ping\<close> with
  \<open>{ok: true, connected: null}\<close>, where the claim has \<open>connected: false\<close>. The
  \<open>connected\<close> field is a boolean only once a connection object exists.
\<close>

theorem ping_on_fresh_daemon:
  "dispatch w fresh_daemon (command ''ping'') =
     (Inr [(''ok'', JBool True), (''connected'', JNull)], fresh_daemon, [])
   \<and> handle_client calm_world fresh_daemon (ReadRequest (command ''ping'')) =
     (fresh_daemon,
      [SockWrite [(''ok'', JBool True), (''connected'', JNull)], SockDrain,
       WriterClose, WriterWaitClosed])
   \<and> fst (dispatch w linked_daemon (command ''ping'')) =
     Inr [(''ok'', JBool True), (''connected'', JBool True)]"
  by (simp add: dispatch_def handle_client_def command_def ping_connected_def
      fresh_daemon_def linked_daemon_def linked_up send_def calm_world_def finally_block_def)

section \<open>Disconnect (C7)\<close>

text \<open>
  C7, as the code has it. \<open>disconnect\<close> is safe to call when the client is absent or
  not connected: it makes no transport call and returns normally. Whenever the
  transport's disconnect is not needed or returns normally, the client reference and
  the connected flag are cleared. It is idempotent: on the cleared state a further
  \<open>disconnect\<close> returns normally, makes no transport call and changes nothing, in any
  world.
\<close>

theorem disconnect_clears_state:
  "(\<not> client_up c \<longrightarrow>
      disconnect w c =
        (Inr (), c\<lparr>disconnect_event := True, client := None, connected_flag := False\<rparr>, []))
   \<and> (disconnect_outcome w = None \<longrightarrow>
        fst (disconnect w c) = Inr ()
        \<and> fst (snd (disconnect w c)) =
            c\<lparr>disconnect_event := True, client := None, connected_flag := False\<rparr>)
   \<and> disconnect w' (c\<lparr>disconnect_event := True, client := None, connected_flag := False\<rparr>) =
        (Inr (), c\<lparr>disconnect_event := True, client := None, connected_flag := False\<rparr>, [])"
  by (simp add: disconnect_def client_up_def Let_def split: option.splits)

theorem disconnect_clears_state_witness:
  "\<not> client_up (new_connection ''AA:BB'')
   \<and> disconnect stormy_world (new_connection ''AA:BB'') =
       (Inr (), (new_connection ''AA:BB'')\<lparr>disconnect_event := True\<rparr>, [])
   \<and> disconnect_outcome calm_world = None
   \<and> fst (disconnect calm_world linked) = Inr ()
   \<and> client (fst (snd (disconnect calm_world linked))) = None
   \<and> \<not> connected_flag (fst (snd (disconnect calm_world linked)))
   \<and> disconnect stormy_world (fst (snd (disconnect calm_world linked))) =
       (Inr (), fst (snd (disconnect calm_world linked)), [])"
proof -
  have down: "\<not> client_up (new_connection ''AA:BB'')"
    by (rule fresh_down)
  have calm: "disconnect_outcome calm_world = None"
    by (simp add: calm_world_def)
  note a = disconnect_clears_state [of "new_connection ''AA:BB''" stormy_world stormy_world]
  note b = disconnect_clears_state [of linked calm_world stormy_world]
  from a [THEN conjunct1] down
  have 1: "disconnect stormy_world (new_connection ''AA:BB'') =
      (Inr (), (new_connection ''AA:BB'')\<lparr>disconnect_event := True\<rparr>, [])"
    by (simp add: new_connection_def)
  from b [THEN conjunct2, THEN conjunct1] calm
  have 2: "fst (disconnect calm_world linked) = Inr ()"
    and 3: "fst (snd (disconnect calm_world linked)) =
      linked\<lparr>disconnect_event := True, client := None, connected_flag := False\<rparr>"
    by simp_all
  from b [THEN conjunct2, THEN conjunct2]
  have 4: "disconnect stormy_world (fst (snd (disconnect calm_world linked))) =
      (Inr (), fst (snd (disconnect calm_world linked)), [])"
    by (simp add: 3)
  from down 1 calm 2 3 4 show ?thesis
    by simp
qed

text \<open>
  Against C7 as stated: when the transport's disconnect raises, the exception leaves
  \<open>disconnect\<close>, and the client reference and the connected flag are still in place.
\<close>

theorem failed_disconnect_keeps_state:
  "disconnect stormy_world linked =
     (Inl (BleakError ''Not connected''), linked\<lparr>disconnect_event := True\<rparr>, [ClientDisconnect])
   \<and> client (fst (snd (disconnect stormy_world linked))) =
       Some \<lparr>client_address = ''AA:BB'', client_is_connected = True\<rparr>
   \<and> connected_flag (fst (snd (disconnect stormy_world linked)))"
  by (simp add: disconnect_def client_up_def linked_def stormy_world_def)

section \<open>Connect (C8)\<close>

lemma connect_never_raises: "\<exists>b. fst (connect w c) = Inr b"
proof -
  obtain res c' tr where "connect_try w c = (res, c', tr)"
    by (rule prod_cases3)
  then show ?thesis
    by (cases res) (auto simp add: connect_def)
qed

lemma connect_false_if_try_raises:
  "\<not> is_connected c \<Longrightarrow> fst (connect_try w c) = Inl e \<Longrightarrow> fst (connect w c) = Inr False"
  by (cases "connect_try w c") (simp add: connect_def)

lemma connect_as_try:
  "\<not> is_connected c \<Longrightarrow> fst (connect_try w c) = Inr b \<Longrightarrow> fst (connect w c) = Inr b"
  by (cases "connect_try w c") (simp add: connect_def)

lemma connect_events:
  "snd (snd (connect w c)) = (if is_connected c then [] else snd (snd (connect_try w c)))"
  by (cases "connect_try w c") (simp add: connect_def split: sum.splits)

lemma connect_try_pairs_once: "count_list (snd (snd (connect_try w c))) ClientPair \<le> 1"
  by (simp add: connect_try_def save_working_address_def Let_def
      split: sum.splits exn.splits option.splits)

lemma connect_try_pairs_on_request:
  assumes "connect_outcome w = Inr True"
    and "read_outcome w POWER_CHAR_UUID = Inl (BleakError m)"
    and "contains ''Insufficient Encryption'' m \<or> contains ''0x0F'' m"
  shows "count_list (snd (snd (connect_try w c))) ClientPair = 1"
  using assms
  by (auto simp add: connect_try_def save_working_address_def Let_def split: option.splits)

text \<open>
  C8, as the code has it. \<open>connect\<close> never raises: its result is a boolean. It is false
  when establishing the link raises (a timeout or any other error) or leaves the link
  down, and when the first privileged read raises anything but a \<open>BleakError\<close>. A
  \<open>BleakError\<close> of that read is absorbed (after one pairing attempt, if it reports
  insufficient encryption): with pairing and the saving of the address succeeding,
  \<open>connect\<close> returns true. Pairing is attempted at most once in a call, and exactly
  once when the read's \<open>BleakError\<close> reports insufficient encryption.
\<close>

theorem connect_returns_boolean:
  "(\<exists>b. fst (connect w c) = Inr b)
   \<and> (\<not> is_connected c
        \<and> ((\<exists>e. connect_outcome w = Inl e) \<or> connect_outcome w = Inr False)
      \<longrightarrow> fst (connect w c) = Inr False)
   \<and> (\<not> is_connected c \<and> connect_outcome w = Inr True
        \<and> ((\<exists>m. read_outcome w POWER_CHAR_UUID = Inl (TimeoutError m))
            \<or> (\<exists>m. read_outcome w POWER_CHAR_UUID = Inl (OtherError m)))
      \<longrightarrow> fst (connect w c) = Inr False)
   \<and> (\<not> is_connected c \<and> connect_outcome w = Inr True
        \<and> (\<exists>m. read_outcome w POWER_CHAR_UUID = Inl (BleakError m))
        \<and> pair_outcome w = None \<and> save_outcome w = None
      \<longrightarrow> fst (connect w c) = Inr True)
   \<and> count_list (snd (snd (connect w c))) ClientPair \<le> 1
   \<and> (\<not> is_connected c \<and> connect_outcome w = Inr True
        \<and> (\<exists>m. read_outcome w POWER_CHAR_UUID = Inl (BleakError m)
               \<and> (contains ''Insufficient Encryption'' m \<or> contains ''0x0F'' m))
      \<longrightarrow> count_list (snd (snd (connect w c))) ClientPair = 1)"
proof (intro conjI impI)
  show "\<exists>b. fst (connect w c) = Inr b"
    by (rule connect_never_raises)
next
  assume a: "\<not> is_connected c
      \<and> ((\<exists>e. connect_outcome w = Inl e) \<or> connect_outcome w = Inr False)"
  then consider e where "connect_outcome w = Inl e" | "connect_outcome w = Inr False"
    by blast
  then show "fst (connect w c) = Inr False"
  proof cases
    case 1
    then have "fst (connect_try w c) = Inl e"
      by (simp add: connect_try_def)
    with a show ?thesis
      by (simp add: connect_false_if_try_raises)
  next
    case 2
    then have "fst (connect_try w c) = Inr False"
      by (simp add: connect_try_def)
    with a show ?thesis
      by (simp add: connect_as_try)
  qed
next
  assume a: "\<not> is_connected c \<and> connect_outcome w = Inr True
      \<and> ((\<exists>m. read_outcome w POWER_CHAR_UUID = Inl (TimeoutError m))
          \<or> (\<exists>m. read_outcome w POWER_CHAR_UUID = Inl (OtherError m)))"
  then obtain e where "read_outcome w POWER_CHAR_UUID = Inl e" "\<forall>m. e \<noteq> BleakError m"
    by auto
  with a have "fst (connect_try w c) = Inl e"
    by (cases e) (simp_all add: connect_try_def)
  with a show "fst (connect w c) = Inr False"
    by (simp add: connect_false_if_try_raises)
next
  assume a: "\<not> is_connected c \<and> connect_outcome w = Inr True
      \<and> (\<exists>m. read_outcome w POWER_CHAR_UUID = Inl (BleakError m))
      \<and> pair_outcome w = None \<and> save_outcome w = None"
  then have "fst (connect_try w c) = Inr True"
    by (auto simp add: connect_try_def save_working_address_def Let_def)
  with a show "fst (connect w c) = Inr True"
    by (simp add: connect_as_try)
next
  show "count_list (snd (snd (connect w c))) ClientPair \<le> 1"
    using connect_try_pairs_once [of w c] by (simp add: connect_events)
next
  assume a: "\<not> is_connected c \<and> connect_outcome w = Inr True
      \<and> (\<exists>m. read_outcome w POWER_CHAR_UUID = Inl (BleakError m)
             \<and> (contains ''Insufficient Encryption'' m \<or> contains ''0x0F'' m))"
  then obtain m where "read_outcome w POWER_CHAR_UUID = Inl (BleakError m)"
    and "contains ''Insufficient Encryption'' m \<or> contains ''0x0F'' m"
    by blast
  with a have "count_list (snd (snd (connect_try w c))) ClientPair = 1"
    by (simp add: connect_try_pairs_on_request)
  with a show "count_list (snd (snd (connect w c))) ClientPair = 1"
    by (simp add: connect_events)
qed

theorem connect_returns_boolean_witness:
  "\<not> is_connected (new_connection ''AA:BB'')
   \<and> connect_outcome timeout_world = Inl (TimeoutError ''timed out'')
   \<and> fst (connect timeout_world (new_connection ''AA:BB'')) = Inr False
   \<and> connect_outcome stormy_world = Inr True
   \<and> read_outcome stormy_world POWER_CHAR_UUID = Inl (BleakError ''Characteristic not found'')
   \<and> pair_outcome stormy_world = None \<and> save_outcome stormy_world = None
   \<and> fst (connect stormy_world (new_connection ''AA:BB'')) = Inr True
   \<and> connect_outcome pairing_world = Inr True
   \<and> read_outcome pairing_world POWER_CHAR_UUID =
       Inl (BleakError ''Insufficient Encryption (0x0F)'')
   \<and> contains ''Insufficient Encryption'' ''Insufficient Encryption (0x0F)''
   \<and> count_list (snd (snd (connect pairing_world (new_connection ''AA:BB'')))) ClientPair = 1
   \<and> snd (snd (connect pairing_world (new_connection ''AA:BB''))) =
       [ClientConnect ''AA:BB'', ReadGattChar POWER_CHAR_UUID, ClientPair, SaveConfig ''AA:BB'']"
proof -
  have down: "\<not> is_connected (new_connection ''AA:BB'')"
    by (simp add: is_connected_def new_connection_def)
  have t: "connect_outcome timeout_world = Inl (TimeoutError ''timed out'')"
    by (simp add: timeout_world_def)
  have s: "connect_outcome stormy_world = Inr True"
    "read_outcome stormy_world POWER_CHAR_UUID = Inl (BleakError ''Characteristic not found'')"
    "pair_outcome stormy_world = None" "save_outcome stormy_world = None"
    by (simp_all add: stormy_world_def)
  have p: "connect_outcome pairing_world = Inr True"
    "read_outcome pairing_world POWER_CHAR_UUID =
       Inl (BleakError ''Insufficient Encryption (0x0F)'')"
    by (simp_all add: pairing_world_def calm_world_def)
  have asks: "contains ''Insufficient Encryption'' ''Insufficient Encryption (0x0F)''"
    by simp
  from connect_returns_boolean [of timeout_world "new_connection ''AA:BB''",
      THEN conjunct2, THEN conjunct1] down t
  have 1: "fst (connect timeout_world (new_connection ''AA:BB'')) = Inr False"
    by blast
  from connect_returns_boolean [of stormy_world "new_connection ''AA:BB''",
      THEN conjunct2, THEN conjunct2, THEN conjunct2, THEN conjunct1] down s
  have 2: "fst (connect stormy_world (new_connection ''AA:BB'')) = Inr True"
    by blast
  from connect_returns_boolean [of pairing_world "new_connection ''AA:BB''",
      THEN conjunct2, THEN conjunct2, THEN conjunct2, THEN conjunct2, THEN conjunct2]
    down p asks
  have 3: "count_list (snd (snd (connect pairing_world (new_connection ''AA:BB''))))
      ClientPair = 1"
    by blast
  have 4: "snd (snd (connect pairing_world (new_connection ''AA:BB''))) =
      [ClientConnect ''AA:BB'', ReadGattChar POWER_CHAR_UUID, ClientPair, SaveConfig ''AA:BB'']"
    using down
    by (simp add: connect_events connect_try_def save_working_address_def
        pairing_world_def calm_world_def)
      (simp add: new_connection_def)
  from down t 1 s 2 p asks 3 4 show ?thesis
    by (intro conjI)
qed

text \<open>
  Against C8 as stated: the first privileged read fails with a \<open>BleakError\<close>, and
  \<open>connect\<close> returns true, with the connected flag set.
\<close>

theorem connect_true_after_failed_read:
  "read_outcome stormy_world POWER_CHAR_UUID = Inl (BleakError ''Characteristic not found'')
   \<and> connect stormy_world (new_connection ''AA:BB'') =
       (Inr True, linked,
        [ClientConnect ''AA:BB'', ReadGattChar POWER_CHAR_UUID, SaveConfig ''AA:BB''])"
  by (simp add: connect_def connect_try_def save_working_address_def is_connected_def
      client_up_def new_connection_def linked_def stormy_world_def)

section \<open>Shutdown (C9)\<close>

lemma handle_shutdown:
  "req_cmd r = Some ''shutdown'' \<Longrightarrow>
     snd (handle_client w d (ReadRequest r)) =
       (case drain_outcome w of
          Some e \<Rightarrow> [SockWrite shutting_down] @ rescue w e @ finally_block
        | None \<Rightarrow>
            [SockWrite shutting_down, SockDrain, WriterClose]
              @ snd (snd (stop w d))
              @ (case fst (stop w d) of Inl e \<Rightarrow> rescue w e | Inr u \<Rightarrow> [])
              @ finally_block)"
  by (cases "stop w d")
    (simp add: handle_client_def send_def split: option.splits sum.splits)

lemma rescue_when_drain_raises:
  "drain_outcome w = Some e' \<Longrightarrow>
     rescue w e = [] \<or> (\<exists>x. rescue w e = [SockWrite x])"
  by (simp add: rescue_def send_def split: exn.splits)

text \<open>
  C9. For every \<open>shutdown\<close> request, no teardown step (disconnecting the link, closing
  the listening server, removing the PID file) is taken before the response
  \<open>{ok: true, message: "Shutting down"}\<close> has been written to the client and
  flushed; when the socket accepts the write, writing and flushing it are the first
  two things the handler does.
\<close>

theorem shutdown_answers_before_teardown:
  assumes "req_cmd r = Some ''shutdown''"
  shows "answered_first shutting_down Silent (snd (handle_client w d (ReadRequest r)))
     \<and> (drain_outcome w = None \<longrightarrow>
          take 2 (snd (handle_client w d (ReadRequest r))) =
            [SockWrite shutting_down, SockDrain])"
proof (cases "drain_outcome w")
  case None
  with handle_shutdown [OF assms, of w d] show ?thesis
    by (simp add: answered_first_flushed)
next
  case (Some e')
  from rescue_when_drain_raises [OF Some, of e']
  have "answered_first shutting_down Written (rescue w e' @ finally_block)"
    by (auto simp add: finally_block_def)
  with Some handle_shutdown [OF assms, of w d] show ?thesis
    by simp
qed

theorem shutdown_answers_before_teardown_witness:
  "req_cmd (command ''shutdown'') = Some ''shutdown''
   \<and> drain_outcome calm_world = None
   \<and> snd (handle_client calm_world linked_daemon (ReadRequest (command ''shutdown''))) =
       [SockWrite shutting_down, SockDrain, WriterClose, ClientDisconnect,
        ServerClose, ServerWaitClosed, PidUnlink, WriterClose, WriterWaitClosed]
   \<and> answered_first shutting_down Silent
        (snd (handle_client calm_world linked_daemon (ReadRequest (command ''shutdown''))))
   \<and> take 2 (snd (handle_client calm_world linked_daemon (ReadRequest (command ''shutdown''))))
       = [SockWrite shutting_down, SockDrain]
   \<and> \<not> answered_first shutting_down Silent [ClientDisconnect, SockWrite shutting_down, SockDrain]"
proof -
  have cmd: "req_cmd (command ''shutdown'') = Some ''shutdown''"
    by (simp add: command_def)
  have calm: "drain_outcome calm_world = None"
    by (simp add: calm_world_def)
  have stop: "stop calm_world linked_daemon =
      (Inr (),
       \<lparr>connection =
          Some (linked\<lparr>disconnect_event := True, client := None, connected_flag := False\<rparr>),
        server = Some False, pid_file = False\<rparr>,
       [ClientDisconnect, ServerClose, ServerWaitClosed, PidUnlink])"
    by (simp add: stop_def linked_daemon_def disconnect_calm)
  have tr: "snd (handle_client calm_world linked_daemon (ReadRequest (command ''shutdown''))) =
      [SockWrite shutting_down, SockDrain, WriterClose, ClientDisconnect,
       ServerClose, ServerWaitClosed, PidUnlink, WriterClose, WriterWaitClosed]"
    by (simp add: handle_shutdown [OF cmd] calm stop finally_block_def)
  note t = shutdown_answers_before_teardown [OF cmd, of calm_world linked_daemon]
  from t [THEN conjunct2] calm
  have first: "take 2 (snd (handle_client calm_world linked_daemon
      (ReadRequest (command ''shutdown'')))) = [SockWrite shutting_down, SockDrain]"
    by blast
  have "\<not> answered_first shutting_down Silent
      [ClientDisconnect, SockWrite shutting_down, SockDrain]"
    by simp
  with cmd calm tr t [THEN conjunct1] first show ?thesis
    by (intro conjI)
qed

section \<open>The default level (C10)\<close>

text \<open>
  C10. A \<open>brightness\<close> request with no \<open>level\<close> field is handled exactly as the same
  request with \<open>level\<close> 50: the dispatch and the whole handling of the client agree.
\<close>

theorem absent_level_is_50:
  assumes "req_cmd r = Some ''brightness''" and "req_level r = None"
  shows "dispatch w d r = dispatch w d (r\<lparr>req_level := Some 50\<rparr>)
     \<and> handle_client w d (ReadRequest r) =
         handle_client w d (ReadRequest (r\<lparr>req_level := Some 50\<rparr>))"
  using assms by (simp add: dispatch_def handle_client_def)

theorem absent_level_is_50_witness:
  "req_cmd (command ''brightness'') = Some ''brightness''
   \<and> req_level (command ''brightness'') = None
   \<and> dispatch calm_world linked_daemon (command ''brightness'') =
       dispatch calm_world linked_daemon
         \<lparr>req_cmd = Some ''brightness'', req_address = None, req_level = Some 50\<rparr>
   \<and> dispatch calm_world linked_daemon
         \<lparr>req_cmd = Some ''brightness'', req_address = None, req_level = Some 50\<rparr> =
       (Inr [(''ok'', JBool True)], linked_daemon,
        [LockAcquire, WriteGattChar BRIGHTNESS_CHAR_UUID [127], LockRelease])"
proof -
  have cmd: "req_cmd (command ''brightness'') = Some ''brightness''"
    and lvl: "req_level (command ''brightness'') = None"
    by (simp_all add: command_def)
  from absent_level_is_50 [OF cmd lvl, of calm_world linked_daemon, THEN conjunct1]
  have same: "dispatch calm_world linked_daemon (command ''brightness'') =
      dispatch calm_world linked_daemon
        \<lparr>req_cmd = Some ''brightness'', req_address = None, req_level = Some 50\<rparr>"
    by (simp add: command_def)
  have fifty: "dispatch calm_world linked_daemon
        \<lparr>req_cmd = Some ''brightness'', req_address = None, req_level = Some 50\<rparr> =
      (Inr [(''ok'', JBool True)], linked_daemon,
       [LockAcquire, WriteGattChar BRIGHTNESS_CHAR_UUID [127], LockRelease])"
    by (simp add: dispatch_def on_connection_def linked_daemon_def linked_up
        set_brightness_up brightness_value_div write_locked_def calm_world_def)
  from cmd lvl same fifty show ?thesis
    by (intro conjI)
qed

end
